theory Spec2Isabelle
  imports Main
begin

section \<open>Data model of src/index.tsx\<close>

text \<open>
  JavaScript strings are modelled as \<open>string\<close>: a sequence of 8-bit code units (the
  Latin-1 range of the UTF-16 code units of the source). \<open>ImageState\<close> is the non-null
  part of the type of line 15; the nullable slots are \<open>ImageState option\<close>.
\<close>

record ImageState =
  data :: string
  mimeType :: string

datatype AspectRatio = Ratio_1_1 | Ratio_16_9 | Ratio_9_16 | Ratio_4_3 | Ratio_3_4

datatype Modality = IMAGE | TEXT

definition imageGenerationModel :: string where
  "imageGenerationModel = ''imagen-4.0-generate-001''"

definition imageEditModel :: string where
  "imageEditModel = ''gemini-2.5-flash-image-preview''"

text \<open>
  A part of a content request or response: the two optional fields the code reads,
  \<open>part.inlineData\<close> and \<open>part.text\<close>.
\<close>

record Part =
  inlineData :: "ImageState option"
  part_text :: "string option"

text \<open>The two requests the code sends to the client (lines 67-75 and 143-159).\<close>

datatype request =
    GenerateImages string string nat string AspectRatio
      \<comment> \<open>model, prompt, numberOfImages, outputMimeType, aspectRatio\<close>
  | GenerateContent string "Part list" "Modality list"
      \<comment> \<open>model, contents.parts, responseModalities\<close>

text \<open>
  The responses, with every field the code reads through \<open>?.\<close> optional:
  \<open>generationResponse.generatedImages?.[0]?.image?.imageBytes\<close> and
  \<open>editResponse.candidates?.[0]?.content?.parts\<close>.
\<close>

record Image =
  imageBytes :: "string option"
  image_mimeType :: "string option"

record GeneratedImage =
  image :: "Image option"

record GenerateImagesResponse =
  generatedImages :: "GeneratedImage list option"

record Content =
  parts :: "Part list option"

record Candidate =
  content :: "Content option"

record GenerateContentResponse =
  candidates :: "Candidate list option"

text \<open>
  What a \<open>catch\<close> clause receives: an \<open>Error\<close> object with its message, or any other
  thrown value. An awaited request either fulfils with a response or rejects.
\<close>

datatype thrown = Error string | NonError

datatype 'a settled = Fulfilled 'a | Rejected thrown

text \<open>
  The elements the code puts into the four regions of the page: the loading paragraph,
  the error paragraph built around a message, an image with its \<open>src\<close> and \<open>alt\<close>, a
  paragraph with its text content, and a save button with the artifact and the filename
  prefix its click listener has captured.
\<close>

datatype node =
    LoadingP string
  | ErrorP string
  | Img string string
  | P string
  | SaveButton ImageState string

text \<open>
  The module state (lines 19-20) and the part of the page the code reads and writes
  (lines 23-31). The four regions are looked up once with \<open>getElementById\<close> and bound
  to constants: \<open>_found\<close> says whether the lookup returned an element (this never
  changes), and the region itself holds the element's child nodes from top to bottom.
  The two buttons and the three inputs are there: the module uses them without a check
  (lines 35-36, 47, 53, 128). The calls of \<open>alert\<close> and \<open>console.error\<close> are
  recorded in two logs.
\<close>

record state =
  originalImageState :: "ImageState option"
  editedImageState :: "ImageState option"
  generateButton_disabled :: bool
  generateButton_textContent :: string
  generationPromptInput_disabled :: bool
  aspectRatioSelect_disabled :: bool
  editButton_disabled :: bool
  editButton_textContent :: string
  editPromptInput_disabled :: bool
  originalWrapper_found :: bool
  editedWrapper_found :: bool
  originalSaveContainer_found :: bool
  editedSaveContainer_found :: bool
  originalWrapper :: "node list"
  editedWrapper :: "node list"
  originalSaveContainer :: "node list"
  editedSaveContainer :: "node list"
  alerts :: "string list"
  console_errors :: "string list"

section \<open>String helpers\<close>

text \<open>
  \<open>String.prototype.trim\<close> strips white space and line terminators; in the range of
  8-bit code units these are tab, line feed, vertical tab, form feed, carriage return,
  space and no-break space.
\<close>

definition isWhiteSpace :: "char \<Rightarrow> bool" where
  "isWhiteSpace c =
     (c = CHR 0x09 \<or> c = CHR 0x0A \<or> c = CHR 0x0B \<or> c = CHR 0x0C \<or> c = CHR 0x0D \<or>
      c = CHR 0x20 \<or> c = CHR 0xA0)"

definition trim :: "string \<Rightarrow> string" where
  "trim s = rev (dropWhile isWhiteSpace (rev (dropWhile isWhiteSpace s)))"

text \<open>\<open>s.split('/')\<close>: the pieces of \<open>s\<close> between the slashes, never an empty list.\<close>

fun split_slash :: "string \<Rightarrow> string list" where
  "split_slash [] = [[]]"
| "split_slash (c # cs) =
     (if c = CHR ''/'' then [] # split_slash cs
      else (case split_slash cs of
              [] \<Rightarrow> [[c]]
            | p # ps \<Rightarrow> (c # p) # ps))"

text \<open>The decimal numeral of a number, as a template literal prints an integer.\<close>

definition digit_char :: "nat \<Rightarrow> char" where
  "digit_char d = ''0123456789'' ! d"

fun string_of_nat :: "nat \<Rightarrow> string" where
  "string_of_nat n =
     (if n < 10 then [digit_char n] else string_of_nat (n div 10) @ [digit_char (n mod 10)])"

definition string_of_int :: "int \<Rightarrow> string" where
  "string_of_int i = (if i < 0 then CHR ''-'' # string_of_nat (nat (- i)) else string_of_nat (nat i))"

text \<open>The data URL \<open>`data:${mimeType};base64,${data}`\<close> of lines 91, 177 and 231.\<close>

definition dataUrl :: "string \<Rightarrow> string \<Rightarrow> string" where
  "dataUrl mime bytes = ''data:'' @ mime @ '';base64,'' @ bytes"

definition quoted :: "string \<Rightarrow> string" where
  "quoted s = [CHR 0x22] @ s @ [CHR 0x22]"

section \<open>The enablement transitions (lines 244-263)\<close>

definition setGenerateUIDisabled :: "bool \<Rightarrow> state \<Rightarrow> state" where
  "setGenerateUIDisabled disabled s =
     s\<lparr>generateButton_disabled := disabled,
       generationPromptInput_disabled := disabled,
       aspectRatioSelect_disabled := disabled,
       generateButton_textContent := (if disabled then ''Generating...'' else ''Generate Image'')\<rparr>"

definition setEditUIDisabled :: "bool \<Rightarrow> bool \<Rightarrow> state \<Rightarrow> state" where
  "setEditUIDisabled disabled force s =
     (if \<not> disabled \<and> originalImageState s = None \<and> \<not> force then s
      else s\<lparr>editButton_disabled := disabled,
             editPromptInput_disabled := disabled,
             editButton_textContent := (if disabled then ''Editing...'' else ''Edit Image'')\<rparr>)"

section \<open>Save and download (lines 211-237)\<close>

text \<open>
  \<open>createSaveButton\<close> returns the new children of the container it is given: unchanged
  for a null artifact, otherwise the one save button.
\<close>

definition createSaveButton :: "node list \<Rightarrow> ImageState option \<Rightarrow> string \<Rightarrow> node list" where
  "createSaveButton container imageState filenamePrefix =
     (case imageState of
        None \<Rightarrow> container
      | Some im \<Rightarrow> [SaveButton im filenamePrefix])"

text \<open>
  \<open>downloadImage\<close> builds an anchor, clicks it and removes it again; what remains is the
  download it has triggered, given here by the anchor's \<open>href\<close> and \<open>download\<close>
  attributes. \<open>now\<close> is the value of \<open>Date.now()\<close> at the call.
\<close>

record anchor =
  href :: string
  download :: string

definition extension :: "string \<Rightarrow> string" where
  "extension mime =
     (case split_slash mime of
        _ # e # _ \<Rightarrow> (if e = [] then ''jpeg'' else e)
      | _ \<Rightarrow> ''jpeg'')"

definition downloadImage :: "ImageState option \<Rightarrow> string \<Rightarrow> int \<Rightarrow> anchor option" where
  "downloadImage imageState filenamePrefix now =
     (case imageState of
        None \<Rightarrow> None
      | Some im \<Rightarrow>
          Some \<lparr>href = dataUrl (mimeType im) (data im),
                download = filenamePrefix @ ''-'' @ string_of_int now @ ''.'' @ extension (mimeType im)\<rparr>)"

section \<open>The Generation Flow (lines 41-113)\<close>

definition errorMessage :: "thrown \<Rightarrow> string" where
  "errorMessage error = (case error of Error message \<Rightarrow> message | NonError \<Rightarrow> ''An unknown error occurred.'')"

text \<open>
  The flow up to its \<open>await\<close>: the guards, the loading state and the request. The result
  is the new state and the request that was issued, if one was. \<open>value_in\<close> and
  \<open>aspectRatio\<close> are the values of the prompt input and the aspect ratio selection at
  the click.
\<close>

definition handleGenerate_begin :: "string \<Rightarrow> AspectRatio \<Rightarrow> state \<Rightarrow> state \<times> request option" where
  "handleGenerate_begin value_in aspectRatio s =
     (if \<not> originalWrapper_found s \<or> \<not> editedWrapper_found s \<or>
         \<not> originalSaveContainer_found s \<or> \<not> editedSaveContainer_found s
      then (s\<lparr>console_errors := console_errors s @ [''Required DOM elements not found.'']\<rparr>, None)
      else
        let generationPrompt = trim value_in in
        if generationPrompt = []
        then (s\<lparr>alerts := alerts s @
                 [''Please provide a description for the image you want to create.'']\<rparr>, None)
        else
          let s1 = setGenerateUIDisabled True s;
              s2 = s1\<lparr>originalImageState := None\<rparr>;
              s3 = s2\<lparr>editedImageState := None\<rparr>;
              s4 = s3\<lparr>originalWrapper := [LoadingP ''Generating original image...'']\<rparr>;
              s5 = s4\<lparr>editedWrapper := []\<rparr>;
              s6 = s5\<lparr>originalSaveContainer := []\<rparr>;
              s7 = s6\<lparr>editedSaveContainer := []\<rparr>;
              s8 = setEditUIDisabled True True s7
          in (s8, Some (GenerateImages imageGenerationModel generationPrompt 1 ''image/jpeg'' aspectRatio)))"

text \<open>\<open>generationResponse.generatedImages?.[0]?.image\<close>\<close>

definition firstImage :: "GenerateImagesResponse \<Rightarrow> Image option" where
  "firstImage generationResponse =
     (case generatedImages generationResponse of
        None \<Rightarrow> None
      | Some [] \<Rightarrow> None
      | Some (originalImage # _) \<Rightarrow> image originalImage)"

text \<open>
  The body of the \<open>try\<close> after the request has fulfilled (lines 77-103): the state it
  leaves and what it has thrown, if anything.
\<close>

definition handleGenerate_try :: "GenerateImagesResponse \<Rightarrow> string \<Rightarrow> state \<Rightarrow> state \<times> thrown option" where
  "handleGenerate_try generationResponse generationPrompt s =
     (case Option.bind (firstImage generationResponse) imageBytes of
        None \<Rightarrow> (s, Some (Error ''Failed to generate the initial image.''))
      | Some originalImageBase64 \<Rightarrow>
          if originalImageBase64 = [] then (s, Some (Error ''Failed to generate the initial image.''))
          else
            let originalMimeType =
                  (case Option.bind (firstImage generationResponse) image_mimeType of
                     None \<Rightarrow> ''image/jpeg''
                   | Some m \<Rightarrow> if m = [] then ''image/jpeg'' else m);
                s1 = s\<lparr>originalImageState := Some \<lparr>data = originalImageBase64, mimeType = originalMimeType\<rparr>\<rparr>;
                s2 = s1\<lparr>originalWrapper := []\<rparr>;
                s3 = s2\<lparr>originalWrapper := originalWrapper s2 @
                        [Img (dataUrl originalMimeType originalImageBase64) generationPrompt]\<rparr>;
                s4 = s3\<lparr>originalWrapper := originalWrapper s3 @
                        [P (''Prompt: '' @ quoted generationPrompt)]\<rparr>;
                s5 = s4\<lparr>originalSaveContainer :=
                        createSaveButton (originalSaveContainer s4) (originalImageState s4) ''original-image''\<rparr>;
                s6 = setEditUIDisabled False False s5
            in (s6, None))"

definition handleGenerate_catch :: "thrown \<Rightarrow> state \<Rightarrow> state" where
  "handleGenerate_catch error s =
     s\<lparr>console_errors := console_errors s @ [''An error occurred during generation:''],
       originalWrapper := [ErrorP (errorMessage error)]\<rparr>"

text \<open>
  The flow from the settlement of its request to its end: \<open>try\<close>, \<open>catch\<close>, \<open>finally\<close>.
  \<open>generationPrompt\<close> is the trimmed prompt the flow holds since its beginning.
\<close>

definition handleGenerate_resume :: "GenerateImagesResponse settled \<Rightarrow> string \<Rightarrow> state \<Rightarrow> state" where
  "handleGenerate_resume outcome generationPrompt s =
     (let s' =
        (case outcome of
           Rejected error \<Rightarrow> handleGenerate_catch error s
         | Fulfilled generationResponse \<Rightarrow>
             (case handleGenerate_try generationResponse generationPrompt s of
                (s1, Some error) \<Rightarrow> handleGenerate_catch error s1
              | (s1, None) \<Rightarrow> s1))
      in setGenerateUIDisabled False s')"

section \<open>The Edit Flow (lines 118-203)\<close>

definition handleEdit_begin :: "string \<Rightarrow> state \<Rightarrow> state \<times> request option" where
  "handleEdit_begin value_in s =
     (if \<not> editedWrapper_found s \<or> \<not> editedSaveContainer_found s
      then (s\<lparr>console_errors := console_errors s @ [''Required DOM elements not found.'']\<rparr>, None)
      else
        (case originalImageState s of
           None \<Rightarrow> (s\<lparr>alerts := alerts s @ [''Please generate an image first before editing.'']\<rparr>, None)
         | Some original \<Rightarrow>
             let editPrompt = trim value_in in
             if editPrompt = []
             then (s\<lparr>alerts := alerts s @
                      [''Please provide a description of how you want to edit the image.'']\<rparr>, None)
             else
               let s1 = setEditUIDisabled True False s;
                   s2 = s1\<lparr>editedImageState := None\<rparr>;
                   s3 = s2\<lparr>editedWrapper := [LoadingP ''Editing image with Nano Banana...'']\<rparr>;
                   s4 = s3\<lparr>editedSaveContainer := []\<rparr>
               in (s4, Some (GenerateContent imageEditModel
                      [\<lparr>inlineData = Some \<lparr>data = data original, mimeType = mimeType original\<rparr>,
                        part_text = None\<rparr>,
                       \<lparr>inlineData = None, part_text = Some editPrompt\<rparr>]
                      [IMAGE, TEXT]))))"

text \<open>\<open>editResponse.candidates?.[0]?.content?.parts || []\<close>\<close>

definition responseParts :: "GenerateContentResponse \<Rightarrow> Part list" where
  "responseParts editResponse =
     (case candidates editResponse of
        None \<Rightarrow> []
      | Some [] \<Rightarrow> []
      | Some (candidate # _) \<Rightarrow>
          (case Option.bind (content candidate) parts of
             None \<Rightarrow> []
           | Some ps \<Rightarrow> ps))"

text \<open>One turn of the loop of lines 171-190, on the state and the flag \<open>imageFound\<close>.\<close>

definition processPart :: "string \<Rightarrow> Part \<Rightarrow> state \<times> bool \<Rightarrow> state \<times> bool" where
  "processPart editPrompt part acc =
     (case acc of (s, imageFound) \<Rightarrow>
        (case inlineData part of
           Some blob \<Rightarrow>
             let s1 = s\<lparr>editedImageState := Some \<lparr>data = data blob, mimeType = mimeType blob\<rparr>\<rparr>;
                 s2 = s1\<lparr>editedWrapper :=
                         Img (dataUrl (mimeType blob) (data blob)) editPrompt # editedWrapper s1\<rparr>;
                 s3 = s2\<lparr>editedSaveContainer :=
                         createSaveButton (editedSaveContainer s2) (editedImageState s2) ''edited-image''\<rparr>
             in (s3, True)
         | None \<Rightarrow>
             (case part_text part of
                Some t \<Rightarrow> if t \<noteq> [] then (s\<lparr>editedWrapper := editedWrapper s @ [P t]\<rparr>, imageFound)
                          else (s, imageFound)
              | None \<Rightarrow> (s, imageFound))))"

fun processParts :: "string \<Rightarrow> Part list \<Rightarrow> state \<times> bool \<Rightarrow> state \<times> bool" where
  "processParts editPrompt [] acc = acc"
| "processParts editPrompt (part # rest) acc = processParts editPrompt rest (processPart editPrompt part acc)"

definition handleEdit_try :: "GenerateContentResponse \<Rightarrow> string \<Rightarrow> state \<Rightarrow> state \<times> thrown option" where
  "handleEdit_try editResponse editPrompt s =
     (let s1 = s\<lparr>editedWrapper := []\<rparr>;
          s2 = s1\<lparr>editedWrapper := editedWrapper s1 @ [P (''Edit: '' @ quoted editPrompt)]\<rparr>
      in (case processParts editPrompt (responseParts editResponse) (s2, False) of
            (s3, imageFound) \<Rightarrow>
              if \<not> imageFound then (s3, Some (Error ''The model did not return an edited image.''))
              else (s3, None)))"

definition handleEdit_catch :: "thrown \<Rightarrow> state \<Rightarrow> state" where
  "handleEdit_catch error s =
     s\<lparr>console_errors := console_errors s @ [''An error occurred during editing:''],
       editedWrapper := [ErrorP (errorMessage error)]\<rparr>"

definition handleEdit_resume :: "GenerateContentResponse settled \<Rightarrow> string \<Rightarrow> state \<Rightarrow> state" where
  "handleEdit_resume outcome editPrompt s =
     (let s' =
        (case outcome of
           Rejected error \<Rightarrow> handleEdit_catch error s
         | Fulfilled editResponse \<Rightarrow>
             (case handleEdit_try editResponse editPrompt s of
                (s1, Some error) \<Rightarrow> handleEdit_catch error s1
              | (s1, None) \<Rightarrow> s1))
      in setEditUIDisabled False False s')"

section \<open>The page as an event system\<close>

text \<open>
  The two handlers are asynchronous: between the beginning of a flow and the settlement
  of its request, clicks and settlements of other requests are handled. The system
  state is the page state and the flows that wait, each with the trimmed prompt it
  holds. A click carries the values of the inputs at that moment. A click listener
  (lines 35-36) runs only when its button is not disabled, since a disabled button
  dispatches no click event; a settlement resumes one waiting flow, in any order.
\<close>

record sys =
  page :: state
  generate_pending :: "string list"
  edit_pending :: "string list"

datatype event =
    ClickGenerate string AspectRatio
  | ClickEdit string
  | GenerateSettled nat "GenerateImagesResponse settled"
  | EditSettled nat "GenerateContentResponse settled"

definition remove_nth :: "nat \<Rightarrow> 'a list \<Rightarrow> 'a list" where
  "remove_nth k xs = take k xs @ drop (Suc k) xs"

text \<open>One event; \<open>None\<close> when the event cannot happen in this state.\<close>

fun step :: "event \<Rightarrow> sys \<Rightarrow> sys option" where
  "step (ClickGenerate value_in aspectRatio) t =
     (if generateButton_disabled (page t) then None
      else (case handleGenerate_begin value_in aspectRatio (page t) of
              (s, None) \<Rightarrow> Some (t\<lparr>page := s\<rparr>)
            | (s, Some req) \<Rightarrow>
                Some (t\<lparr>page := s, generate_pending := generate_pending t @ [trim value_in]\<rparr>)))"
| "step (ClickEdit value_in) t =
     (if editButton_disabled (page t) then None
      else (case handleEdit_begin value_in (page t) of
              (s, None) \<Rightarrow> Some (t\<lparr>page := s\<rparr>)
            | (s, Some req) \<Rightarrow>
                Some (t\<lparr>page := s, edit_pending := edit_pending t @ [trim value_in]\<rparr>)))"
| "step (GenerateSettled k outcome) t =
     (if k < length (generate_pending t)
      then Some (t\<lparr>page := handleGenerate_resume outcome (generate_pending t ! k) (page t),
                   generate_pending := remove_nth k (generate_pending t)\<rparr>)
      else None)"
| "step (EditSettled k outcome) t =
     (if k < length (edit_pending t)
      then Some (t\<lparr>page := handleEdit_resume outcome (edit_pending t ! k) (page t),
                   edit_pending := remove_nth k (edit_pending t)\<rparr>)
      else None)"

fun run :: "event list \<Rightarrow> sys \<Rightarrow> sys option" where
  "run [] t = Some t"
| "run (e # es) t = (case step e t of None \<Rightarrow> None | Some t' \<Rightarrow> run es t')"

section \<open>Predicates of the properties\<close>

text \<open>
  The piece of a mime type between its first slash and the next one (or the end), and
  the reading of the specification, "the substring after the slash, \<open>jpeg\<close> if absent".
\<close>

definition segment :: "string \<Rightarrow> string" where
  "segment mime =
     takeWhile (\<lambda>c. c \<noteq> CHR ''/'') (drop 1 (dropWhile (\<lambda>c. c \<noteq> CHR ''/'') mime))"

definition spec_extension :: "string \<Rightarrow> string" where
  "spec_extension mime =
     (let subtype = drop 1 (dropWhile (\<lambda>c. c \<noteq> CHR ''/'') mime)
      in if subtype = [] then ''jpeg'' else subtype)"

text \<open>The gate: the Edit trigger is enabled only while there is an original image.\<close>

definition gate_ok :: "state \<Rightarrow> bool" where
  "gate_ok s = (editButton_disabled s \<or> originalImageState s \<noteq> None)"

text \<open>
  The page while a generation waits for its request: no original, Edit controls and
  Generate trigger disabled.
\<close>

definition locked :: "state \<Rightarrow> bool" where
  "locked s =
     (originalImageState s = None \<and> editButton_disabled s \<and> editPromptInput_disabled s \<and>
      generateButton_disabled s)"

fun is_GenerateSettled :: "event \<Rightarrow> bool" where
  "is_GenerateSettled (GenerateSettled _ _) = True"
| "is_GenerateSettled _ = False"

text \<open>A response part that carries an image, and an edit settlement that brings none.\<close>

definition is_image_part :: "Part \<Rightarrow> bool" where
  "is_image_part part = (inlineData part \<noteq> None)"

fun imageless :: "GenerateContentResponse settled \<Rightarrow> bool" where
  "imageless (Rejected _) = True"
| "imageless (Fulfilled editResponse) = (filter is_image_part (responseParts editResponse) = [])"

text \<open>
  An event that is neither the settlement of a generation nor the settlement of an edit
  request with an image part.
\<close>

fun quiet :: "event \<Rightarrow> bool" where
  "quiet (GenerateSettled _ _) = False"
| "quiet (EditSettled _ outcome) = imageless outcome"
| "quiet _ = True"

text \<open>An event other than the settlement of an edit request with an image part.\<close>

fun no_edit_image :: "event \<Rightarrow> bool" where
  "no_edit_image (EditSettled _ outcome) = imageless outcome"
| "no_edit_image _ = True"

text \<open>
  A generation that fails after its validation: the request rejects, or the response
  has no image bytes. \<open>thrown_of\<close> is the error that is caught then, and
  \<open>failure_message\<close> its message.
\<close>

fun generation_failed :: "GenerateImagesResponse settled \<Rightarrow> bool" where
  "generation_failed (Rejected _) = True"
| "generation_failed (Fulfilled generationResponse) =
     (case Option.bind (firstImage generationResponse) imageBytes of
        None \<Rightarrow> True
      | Some bytes \<Rightarrow> bytes = [])"

fun thrown_of :: "GenerateImagesResponse settled \<Rightarrow> thrown" where
  "thrown_of (Rejected error) = error"
| "thrown_of (Fulfilled _) = Error ''Failed to generate the initial image.''"

fun failure_message :: "GenerateImagesResponse settled \<Rightarrow> string" where
  "failure_message (Rejected error) = errorMessage error"
| "failure_message (Fulfilled _) = ''Failed to generate the initial image.''"

definition all_found :: "state \<Rightarrow> bool" where
  "all_found s =
     (originalWrapper_found s \<and> editedWrapper_found s \<and>
      originalSaveContainer_found s \<and> editedSaveContainer_found s)"

text \<open>The state and the flag \<open>imageFound\<close> after the loop of lines 162-190.\<close>

definition edit_loop :: "GenerateContentResponse \<Rightarrow> string \<Rightarrow> state \<Rightarrow> state \<times> bool" where
  "edit_loop editResponse editPrompt s =
     processParts editPrompt (responseParts editResponse)
       (s\<lparr>editedWrapper := [P (''Edit: '' @ quoted editPrompt)]\<rparr>, False)"

text \<open>The response parts \<open>text(t)\<close> and \<open>image(x)\<close>, and a response with given parts.\<close>

definition text_part :: "string \<Rightarrow> Part" where
  "text_part t = \<lparr>inlineData = None, part_text = Some t\<rparr>"

definition image_part :: "ImageState \<Rightarrow> Part" where
  "image_part x = \<lparr>inlineData = Some x, part_text = None\<rparr>"

definition response_with :: "Part list \<Rightarrow> GenerateContentResponse" where
  "response_with ps = \<lparr>candidates = Some [\<lparr>content = Some \<lparr>parts = Some ps\<rparr>\<rparr>]\<rparr>"

definition image_response :: "string \<Rightarrow> string \<Rightarrow> GenerateImagesResponse" where
  "image_response bytes mime =
     \<lparr>generatedImages = Some [\<lparr>image = Some \<lparr>imageBytes = Some bytes, image_mimeType = Some mime\<rparr>\<rparr>]\<rparr>"

section \<open>Sample states\<close>

text \<open>
  A page just loaded: both slots null (lines 19-20), the four regions found and empty,
  the Generate controls enabled and the Edit controls disabled.
\<close>

definition page0 :: state where
  "page0 =
     \<lparr>originalImageState = None, editedImageState = None,
      generateButton_disabled = False, generateButton_textContent = ''Generate Image'',
      generationPromptInput_disabled = False, aspectRatioSelect_disabled = False,
      editButton_disabled = True, editButton_textContent = ''Edit Image'',
      editPromptInput_disabled = True,
      originalWrapper_found = True, editedWrapper_found = True,
      originalSaveContainer_found = True, editedSaveContainer_found = True,
      originalWrapper = [], editedWrapper = [],
      originalSaveContainer = [], editedSaveContainer = [],
      alerts = [], console_errors = []\<rparr>"

definition sys0 :: sys where
  "sys0 = \<lparr>page = page0, generate_pending = [], edit_pending = []\<rparr>"

text \<open>
  A session in which a generation overlaps an edit: an image is generated, an edit is
  requested, Generate is clicked again while the edit request waits, and the edit
  request fulfils with an image. \<open>sys_editing\<close> is the system after the first three
  events: the image is shown and the edit request waits.
\<close>

definition overlap :: "event list" where
  "overlap =
     [ClickGenerate ''a cat'' Ratio_1_1,
      GenerateSettled 0 (Fulfilled (image_response ''QUJD'' ''image/jpeg'')),
      ClickEdit ''add a hat'',
      ClickGenerate ''a dog'' Ratio_1_1,
      EditSettled 0 (Fulfilled (response_with [image_part \<lparr>data = ''WA=='', mimeType = ''image/png''\<rparr>]))]"

text \<open>
  A session with two edit requests waiting at once: as before an edit is requested and
  Generate is clicked while it waits; the generation succeeds, which enables the Edit
  trigger again, and a second edit is requested. The first edit request then fulfils
  with an image, and the second one with a text only.
\<close>

definition two_edits :: "event list" where
  "two_edits =
     [ClickGenerate ''a cat'' Ratio_1_1,
      GenerateSettled 0 (Fulfilled (image_response ''QUJD'' ''image/jpeg'')),
      ClickEdit ''add a hat'',
      ClickGenerate ''a dog'' Ratio_1_1,
      GenerateSettled 0 (Fulfilled (image_response ''RE9H'' ''image/jpeg'')),
      ClickEdit ''add a scarf'',
      EditSettled 0 (Fulfilled (response_with [image_part \<lparr>data = ''WA=='', mimeType = ''image/png''\<rparr>])),
      EditSettled 0 (Fulfilled (response_with [text_part ''Sorry, no.'']))]"

definition sys_editing :: sys where
  "sys_editing =
     \<lparr>page = page0
        \<lparr>originalImageState := Some \<lparr>data = ''QUJD'', mimeType = ''image/jpeg''\<rparr>,
         originalWrapper :=
           [Img ''data:image/jpeg;base64,QUJD'' ''a cat'', P (''Prompt: '' @ quoted ''a cat'')],
         originalSaveContainer :=
           [SaveButton \<lparr>data = ''QUJD'', mimeType = ''image/jpeg''\<rparr> ''original-image''],
         editButton_textContent := ''Editing...'',
         editedWrapper := [LoadingP ''Editing image with Nano Banana...'']\<rparr>,
      generate_pending = [], edit_pending = [''add a hat'']\<rparr>"

section \<open>Auxiliary facts\<close>

declare string_of_nat.simps [simp del]

lemma string_of_nat_digit: "n < 10 \<Longrightarrow> string_of_nat n = [digit_char n]"
  by (subst string_of_nat.simps) simp

lemma string_of_nat_more:
  "10 \<le> n \<Longrightarrow> string_of_nat n = string_of_nat (n div 10) @ [digit_char (n mod 10)]"
  by (subst string_of_nat.simps) simp

lemmas numeral_defs = string_of_int_def string_of_nat_digit string_of_nat_more digit_char_def

lemma trim_whitespace_only: "\<forall>c\<in>set v. isWhiteSpace c \<Longrightarrow> trim v = []"
proof -
  assume "\<forall>c\<in>set v. isWhiteSpace c"
  then have "dropWhile isWhiteSpace v = []" by (simp add: dropWhile_eq_Nil_conv)
  then show ?thesis by (simp only: trim_def rev.simps dropWhile.simps)
qed

subsection \<open>Splitting at slashes\<close>

lemma split_slash_not_Nil [simp]: "split_slash s \<noteq> []"
  by (induction s) (auto split: list.splits)

lemma split_slash_no_slash: "CHR ''/'' \<notin> set s \<Longrightarrow> split_slash s = [s]"
  by (induction s) (auto split: list.splits)

lemma split_slash_append:
  "CHR ''/'' \<notin> set a \<Longrightarrow> split_slash (a @ CHR ''/'' # b) = a # split_slash b"
  by (induction a) (auto split: list.splits)

lemma hd_split_slash: "hd (split_slash s) = takeWhile (\<lambda>c. c \<noteq> CHR ''/'') s"
  by (induction s) (auto split: list.splits)

lemma extension_segment:
  "extension mime = (if segment mime = [] then ''jpeg'' else segment mime)"
proof (cases "CHR ''/'' \<in> set mime")
  case False
  then have "dropWhile (\<lambda>c. c \<noteq> CHR ''/'') mime = []" by auto
  with False show ?thesis
    by (simp add: extension_def segment_def split_slash_no_slash del: dropWhile_eq_Nil_conv)
next
  case True
  then obtain a b where ab: "mime = a @ CHR ''/'' # b" "CHR ''/'' \<notin> set a"
    by (meson split_list_first)
  have dw: "dropWhile (\<lambda>c. c \<noteq> CHR ''/'') mime = CHR ''/'' # b"
  proof -
    have "\<And>x. x \<in> set a \<Longrightarrow> x \<noteq> CHR ''/''" using ab(2) by auto
    then have "dropWhile (\<lambda>c. c \<noteq> CHR ''/'') (a @ CHR ''/'' # b) =
               dropWhile (\<lambda>c. c \<noteq> CHR ''/'') (CHR ''/'' # b)"
      by (rule dropWhile_append2)
    then show ?thesis using ab(1) by simp
  qed
  obtain x xs where sb: "split_slash b = x # xs" by (cases "split_slash b") auto
  have "x = takeWhile (\<lambda>c. c \<noteq> CHR ''/'') b" using hd_split_slash [of b] sb by simp
  then show ?thesis
    using ab sb dw by (simp add: extension_def segment_def split_slash_append)
qed

subsection \<open>The flows\<close>

lemmas generate_defs =
  handleGenerate_begin_def handleGenerate_resume_def handleGenerate_try_def
  handleGenerate_catch_def setGenerateUIDisabled_def setEditUIDisabled_def createSaveButton_def
  all_found_def Let_def

lemmas edit_defs =
  handleEdit_begin_def handleEdit_resume_def handleEdit_try_def
  handleEdit_catch_def setEditUIDisabled_def createSaveButton_def Let_def

lemma processPart_other_fields:
  "originalImageState (fst (processPart p part acc)) = originalImageState (fst acc)"
  "editButton_disabled (fst (processPart p part acc)) = editButton_disabled (fst acc)"
  "editPromptInput_disabled (fst (processPart p part acc)) = editPromptInput_disabled (fst acc)"
  "editButton_textContent (fst (processPart p part acc)) = editButton_textContent (fst acc)"
  "generateButton_disabled (fst (processPart p part acc)) = generateButton_disabled (fst acc)"
  by (cases acc; simp add: processPart_def Let_def split: option.splits)+

lemma processParts_other_fields:
  "originalImageState (fst (processParts p ps acc)) = originalImageState (fst acc)"
  "editButton_disabled (fst (processParts p ps acc)) = editButton_disabled (fst acc)"
  "editPromptInput_disabled (fst (processParts p ps acc)) = editPromptInput_disabled (fst acc)"
  "editButton_textContent (fst (processParts p ps acc)) = editButton_textContent (fst acc)"
  "generateButton_disabled (fst (processParts p ps acc)) = generateButton_disabled (fst acc)"
  by (induction ps arbitrary: acc; simp add: processPart_other_fields)+

lemma processPart_no_image:
  "\<not> is_image_part part \<Longrightarrow>
   editedImageState (fst (processPart p part acc)) = editedImageState (fst acc) \<and>
   snd (processPart p part acc) = snd acc"
  by (cases acc) (simp add: processPart_def is_image_part_def Let_def split: option.splits)

lemma processParts_no_image:
  "filter is_image_part ps = [] \<Longrightarrow>
   editedImageState (fst (processParts p ps acc)) = editedImageState (fst acc) \<and>
   snd (processParts p ps acc) = snd acc"
proof (induction ps arbitrary: acc)
  case Nil
  then show ?case by simp
next
  case (Cons part rest)
  then have here: "\<not> is_image_part part" and later: "filter is_image_part rest = []"
    by (auto split: if_splits)
  show ?case
    using Cons.IH [OF later, of "processPart p part acc"] processPart_no_image [OF here, of p acc]
    by simp
qed

lemma setEditUIDisabled_fields:
  "originalImageState (setEditUIDisabled d f s) = originalImageState s"
  "editedImageState (setEditUIDisabled d f s) = editedImageState s"
  "generateButton_disabled (setEditUIDisabled d f s) = generateButton_disabled s"
  "editedWrapper (setEditUIDisabled d f s) = editedWrapper s"
  "originalWrapper (setEditUIDisabled d f s) = originalWrapper s"
  by (simp_all add: setEditUIDisabled_def)

lemma handleEdit_catch_fields:
  "originalImageState (handleEdit_catch e s) = originalImageState s"
  "editedImageState (handleEdit_catch e s) = editedImageState s"
  "generateButton_disabled (handleEdit_catch e s) = generateButton_disabled s"
  "editButton_disabled (handleEdit_catch e s) = editButton_disabled s"
  "editPromptInput_disabled (handleEdit_catch e s) = editPromptInput_disabled s"
  "editButton_textContent (handleEdit_catch e s) = editButton_textContent s"
  "editedWrapper (handleEdit_catch e s) = [ErrorP (errorMessage e)]"
  by (simp_all add: handleEdit_catch_def)

lemma handleEdit_try_alt:
  "handleEdit_try r p s =
     (fst (edit_loop r p s),
      if snd (edit_loop r p s) then None else Some (Error ''The model did not return an edited image.''))"
  by (simp add: handleEdit_try_def edit_loop_def Let_def split: prod.splits)

lemma handleEdit_resume_alt:
  "handleEdit_resume (Rejected e) p s = setEditUIDisabled False False (handleEdit_catch e s)"
  "handleEdit_resume (Fulfilled r) p s =
     setEditUIDisabled False False
       (if snd (edit_loop r p s) then fst (edit_loop r p s)
        else handleEdit_catch (Error ''The model did not return an edited image.'') (fst (edit_loop r p s)))"
  by (simp_all add: handleEdit_resume_def handleEdit_try_alt)

lemma edit_loop_fields:
  "originalImageState (fst (edit_loop r p s)) = originalImageState s"
  "editButton_disabled (fst (edit_loop r p s)) = editButton_disabled s"
  "editPromptInput_disabled (fst (edit_loop r p s)) = editPromptInput_disabled s"
  "editButton_textContent (fst (edit_loop r p s)) = editButton_textContent s"
  "generateButton_disabled (fst (edit_loop r p s)) = generateButton_disabled s"
  by (simp_all add: edit_loop_def processParts_other_fields)

lemma handleEdit_resume_fields:
  "originalImageState (handleEdit_resume out p s) = originalImageState s"
  "generateButton_disabled (handleEdit_resume out p s) = generateButton_disabled s"
  by (cases out; simp add: handleEdit_resume_alt setEditUIDisabled_fields handleEdit_catch_fields
      edit_loop_fields)+

lemma responseParts_response_with: "responseParts (response_with ps) = ps"
  by (simp add: responseParts_def response_with_def)

lemma processPart_image:
  "processPart p (image_part x) (s, b) =
     (s\<lparr>editedImageState := Some x,
        editedWrapper := Img (dataUrl (mimeType x) (data x)) p # editedWrapper s,
        editedSaveContainer := [SaveButton x ''edited-image'']\<rparr>, True)"
  by (simp add: processPart_def image_part_def createSaveButton_def Let_def)

lemma processPart_text:
  "processPart p (text_part t) (s, b) =
     ((if t = [] then s else s\<lparr>editedWrapper := editedWrapper s @ [P t]\<rparr>), b)"
  by (simp add: processPart_def text_part_def)

subsection \<open>Events\<close>

lemma run_append:
  "run (xs @ ys) t = (case run xs t of None \<Rightarrow> None | Some t' \<Rightarrow> run ys t')"
  by (induction xs arbitrary: t) (simp_all split: option.splits)

lemma setEditUIDisabled_enable:
  "editButton_disabled (setEditUIDisabled False False x) =
     (if originalImageState x = None then editButton_disabled x else False)"
  "editPromptInput_disabled (setEditUIDisabled False False x) =
     (if originalImageState x = None then editPromptInput_disabled x else False)"
  "editButton_textContent (setEditUIDisabled False False x) =
     (if originalImageState x = None then editButton_textContent x else ''Edit Image'')"
  by (simp_all add: setEditUIDisabled_def)

lemma handleEdit_resume_gate:
  "editButton_disabled (handleEdit_resume out p s) =
     (if originalImageState s = None then editButton_disabled s else False) \<and>
   editPromptInput_disabled (handleEdit_resume out p s) =
     (if originalImageState s = None then editPromptInput_disabled s else False) \<and>
   editButton_textContent (handleEdit_resume out p s) =
     (if originalImageState s = None then editButton_textContent s else ''Edit Image'')"
proof (cases out)
  case (Rejected e)
  show "?thesis" unfolding Rejected handleEdit_resume_alt setEditUIDisabled_enable
    by (simp add: handleEdit_catch_fields del: not_None_eq)
next
  case (Fulfilled r)
  show "?thesis" unfolding Fulfilled handleEdit_resume_alt setEditUIDisabled_enable
    by (simp add: handleEdit_catch_fields edit_loop_fields del: not_None_eq)
qed

lemma handleEdit_resume_imageless:
  "imageless out \<Longrightarrow> editedImageState (handleEdit_resume out p s) = editedImageState s"
proof (cases out)
  case (Rejected e)
  then show ?thesis
    by (simp add: handleEdit_resume_alt setEditUIDisabled_fields handleEdit_catch_fields)
next
  case (Fulfilled r)
  assume "imageless out"
  with Fulfilled have none: "filter is_image_part (responseParts r) = []" by simp
  have "editedImageState (fst (edit_loop r p s)) = editedImageState s"
    using processParts_no_image [OF none, of p "(s\<lparr>editedWrapper := [P (''Edit: '' @ quoted p)]\<rparr>, False)"]
    by (simp add: edit_loop_def)
  then show ?thesis
    by (simp add: Fulfilled handleEdit_resume_alt setEditUIDisabled_fields handleEdit_catch_fields)
qed

lemma handleGenerate_try_failed:
  "generation_failed (Fulfilled r) \<Longrightarrow>
   handleGenerate_try r p s = (s, Some (Error ''Failed to generate the initial image.''))"
  by (simp add: handleGenerate_try_def split: option.splits)

lemma handleGenerate_try_stored:
  assumes "\<not> generation_failed (Fulfilled r)"
  shows "originalImageState (fst (handleGenerate_try r p s)) \<noteq> None \<and>
         snd (handleGenerate_try r p s) = None"
proof (cases "Option.bind (firstImage r) imageBytes")
  case None
  then show ?thesis using assms by simp
next
  case (Some bytes)
  then have "bytes \<noteq> []" using assms by simp
  then show ?thesis
    by (simp add: handleGenerate_try_def Some setEditUIDisabled_def Let_def)
qed

lemma handleGenerate_resume_failed:
  "generation_failed out \<Longrightarrow>
   handleGenerate_resume out p s = setGenerateUIDisabled False (handleGenerate_catch (thrown_of out) s)"
  by (cases out) (simp_all add: handleGenerate_resume_def handleGenerate_try_failed)

lemma handleGenerate_resume_ok:
  assumes "\<not> generation_failed (Fulfilled r)"
  shows "handleGenerate_resume (Fulfilled r) p s =
           setGenerateUIDisabled False (fst (handleGenerate_try r p s))"
proof -
  have none: "snd (handleGenerate_try r p s) = None"
    using handleGenerate_try_stored [OF assms] by simp
  have "(case x of (s1, Some e) \<Rightarrow> handleGenerate_catch e s1 | (s1, None) \<Rightarrow> s1) = fst x"
    if "snd x = None" for x :: "state \<times> thrown option"
    using that by (cases x) simp
  from this [OF none] show ?thesis
    by (simp add: handleGenerate_resume_def)
qed

lemma handleGenerate_resume_stored:
  "\<not> generation_failed out \<Longrightarrow> originalImageState (handleGenerate_resume out p s) \<noteq> None"
proof (cases out)
  case (Rejected e)
  assume "\<not> generation_failed out"
  then show ?thesis using Rejected by simp
next
  case (Fulfilled r)
  assume "\<not> generation_failed out"
  then have ok: "\<not> generation_failed (Fulfilled r)" using Fulfilled by simp
  show ?thesis
    unfolding Fulfilled handleGenerate_resume_ok [OF ok]
    using handleGenerate_try_stored [OF ok, of p s] by (simp add: setGenerateUIDisabled_def)
qed

lemma handleGenerate_begin_issues:
  "all_found s \<Longrightarrow> trim v \<noteq> [] \<Longrightarrow>
   handleGenerate_begin v r s =
     (s\<lparr>generateButton_disabled := True, generationPromptInput_disabled := True,
        aspectRatioSelect_disabled := True, generateButton_textContent := ''Generating...'',
        originalImageState := None, editedImageState := None,
        originalWrapper := [LoadingP ''Generating original image...''],
        editedWrapper := [], originalSaveContainer := [], editedSaveContainer := [],
        editButton_disabled := True, editPromptInput_disabled := True,
        editButton_textContent := ''Editing...''\<rparr>,
      Some (GenerateImages imageGenerationModel (trim v) 1 ''image/jpeg'' r))"
  by (simp add: generate_defs)

lemma page_step:
  "step (ClickGenerate v r) t = Some t' \<Longrightarrow>
     page t' = fst (handleGenerate_begin v r (page t)) \<and> \<not> generateButton_disabled (page t)"
  "step (ClickEdit v) t = Some t' \<Longrightarrow>
     page t' = fst (handleEdit_begin v (page t)) \<and> \<not> editButton_disabled (page t)"
  "step (GenerateSettled k out) t = Some t' \<Longrightarrow>
     page t' = handleGenerate_resume out (generate_pending t ! k) (page t)"
  "step (EditSettled k out') t = Some t' \<Longrightarrow>
     page t' = handleEdit_resume out' (edit_pending t ! k) (page t)"
  by (auto split: if_splits prod.splits option.splits)

declare step.simps [simp del]

subsection \<open>The gate is kept\<close>

lemma gate_ok_setEditUIDisabled:
  "d \<or> \<not> f \<Longrightarrow> gate_ok s \<Longrightarrow> gate_ok (setEditUIDisabled d f s)"
  by (auto simp: gate_ok_def setEditUIDisabled_def)

lemma gate_ok_generate_begin: "gate_ok s \<Longrightarrow> gate_ok (fst (handleGenerate_begin v r s))"
  by (simp add: gate_ok_def generate_defs)

lemma gate_ok_generate_resume: "gate_ok s \<Longrightarrow> gate_ok (handleGenerate_resume out p s)"
proof (cases "generation_failed out")
  case True
  assume "gate_ok s"
  then show ?thesis
    by (simp add: handleGenerate_resume_failed [OF True] gate_ok_def setGenerateUIDisabled_def
        handleGenerate_catch_def)
next
  case False
  then show ?thesis
    using handleGenerate_resume_stored [of out p s] by (simp add: gate_ok_def)
qed

lemma gate_ok_edit_begin: "gate_ok s \<Longrightarrow> gate_ok (fst (handleEdit_begin v s))"
  by (auto simp: gate_ok_def handleEdit_begin_def setEditUIDisabled_def Let_def split: option.splits)

lemma gate_ok_edit_resume: "gate_ok s \<Longrightarrow> gate_ok (handleEdit_resume out p s)"
  by (auto simp: gate_ok_def handleEdit_resume_gate handleEdit_resume_fields)

lemma gate_ok_step:
  assumes "gate_ok (page t)" and "step e t = Some t'"
  shows "gate_ok (page t')"
proof (cases e)
  case (ClickGenerate v r)
  then show ?thesis
    using assms page_step(1) [of v r t t'] gate_ok_generate_begin [of "page t" v r] by simp
next
  case (ClickEdit v)
  then show ?thesis
    using assms page_step(2) [of v t t'] gate_ok_edit_begin [of "page t" v] by simp
next
  case (GenerateSettled k out)
  then show ?thesis
    using assms page_step(3) [of k out t t'] gate_ok_generate_resume [of "page t"] by simp
next
  case (EditSettled k out)
  then show ?thesis
    using assms page_step(4) [of k out t t'] gate_ok_edit_resume [of "page t"] by simp
qed

lemma gate_ok_run: "gate_ok (page t) \<Longrightarrow> run evs t = Some t' \<Longrightarrow> gate_ok (page t')"
proof (induction evs arbitrary: t)
  case Nil
  then show ?case by simp
next
  case (Cons e evs)
  then obtain t1 where "step e t = Some t1" "run evs t1 = Some t'"
    by (auto split: option.splits)
  with Cons show ?case using gate_ok_step by blast
qed

subsection \<open>While a generation waits\<close>

lemma locked_edit_resume: "locked s \<Longrightarrow> locked (handleEdit_resume out p s)"
  by (simp add: locked_def handleEdit_resume_gate handleEdit_resume_fields)

lemma locked_step:
  "locked (page t) \<Longrightarrow> \<not> is_GenerateSettled e \<Longrightarrow> step e t = Some t' \<Longrightarrow> locked (page t')"
proof (cases e)
  case (ClickGenerate v r)
  assume "locked (page t)" "step e t = Some t'"
  then show ?thesis using ClickGenerate page_step(1) [of v r t t'] by (simp add: locked_def)
next
  case (ClickEdit v)
  assume "locked (page t)" "step e t = Some t'"
  then show ?thesis using ClickEdit page_step(2) [of v t t'] by (simp add: locked_def)
next
  case (GenerateSettled k out)
  assume "\<not> is_GenerateSettled e"
  then show ?thesis using GenerateSettled by simp
next
  case (EditSettled k out)
  assume "locked (page t)" "step e t = Some t'"
  then show ?thesis using EditSettled page_step(4) [of k out t t'] locked_edit_resume by simp
qed

lemma locked_run:
  "locked (page t) \<Longrightarrow> \<forall>e\<in>set evs. \<not> is_GenerateSettled e \<Longrightarrow> run evs t = Some t' \<Longrightarrow>
   locked (page t')"
proof (induction evs arbitrary: t)
  case Nil
  then show ?case by simp
next
  case (Cons e evs)
  then obtain t1 where s: "step e t = Some t1" "run evs t1 = Some t'"
    by (auto split: option.splits)
  have "locked (page t1)" using locked_step [OF Cons.prems(1) _ s(1)] Cons.prems(2) by simp
  then show ?case using Cons.IH [OF _ _ s(2)] Cons.prems(2) by simp
qed

lemma quiet_step:
  assumes "locked (page t)" and "editedImageState (page t) = None" and "quiet e"
    and "step e t = Some t'"
  shows "locked (page t') \<and> editedImageState (page t') = None"
proof (cases e)
  case (ClickGenerate v r)
  then show ?thesis using assms page_step(1) [of v r t t'] by (simp add: locked_def)
next
  case (ClickEdit v)
  then show ?thesis using assms page_step(2) [of v t t'] by (simp add: locked_def)
next
  case (GenerateSettled k out)
  then show ?thesis using assms by simp
next
  case (EditSettled k out)
  then have "imageless out" using assms(3) by simp
  then show ?thesis
    using EditSettled assms page_step(4) [of k out t t'] locked_edit_resume
      handleEdit_resume_imageless by simp
qed

lemma quiet_run:
  "locked (page t) \<Longrightarrow> editedImageState (page t) = None \<Longrightarrow> \<forall>e\<in>set evs. quiet e \<Longrightarrow>
   run evs t = Some t' \<Longrightarrow> locked (page t') \<and> editedImageState (page t') = None"
proof (induction evs arbitrary: t)
  case Nil
  then show ?case by simp
next
  case (Cons e evs)
  then obtain t1 where s: "step e t = Some t1" "run evs t1 = Some t'"
    by (auto split: option.splits)
  have "locked (page t1) \<and> editedImageState (page t1) = None"
    using quiet_step [OF Cons.prems(1,2) _ s(1)] Cons.prems(3) by simp
  then show ?case using Cons.IH [OF _ _ _ s(2)] Cons.prems(3) by simp
qed

lemma run_begin_generate:
  assumes "run (ClickGenerate v r # evs) t = Some t'" and "all_found (page t)" and "trim v \<noteq> []"
  obtains t1 where "run evs t1 = Some t'"
    and "page t1 = fst (handleGenerate_begin v r (page t))"
    and "locked (page t1)" and "editedImageState (page t1) = None"
proof -
  from assms(1) obtain t1 where s: "step (ClickGenerate v r) t = Some t1" "run evs t1 = Some t'"
    by (auto split: option.splits)
  have p: "page t1 = fst (handleGenerate_begin v r (page t))"
    using page_step(1) [OF s(1)] by simp
  have "locked (page t1)" "editedImageState (page t1) = None"
    unfolding p handleGenerate_begin_issues [OF assms(2,3)] by (simp_all add: locked_def)
  with s p that show ?thesis by blast
qed

lemma sys_editing_reached: "run (take 3 overlap) sys0 = Some sys_editing"
  by (simp add: overlap_def sys_editing_def step.simps sys0_def page0_def generate_defs
      handleEdit_begin_def trim_def isWhiteSpace_def remove_nth_def firstImage_def
      image_response_def dataUrl_def)

subsection \<open>The edited slot\<close>

lemma handleGenerate_try_edited:
  "editedImageState (fst (handleGenerate_try r p s)) = editedImageState s"
proof (cases "Option.bind (firstImage r) imageBytes")
  case None
  then show ?thesis by (simp add: handleGenerate_try_def)
next
  case (Some bytes)
  then show ?thesis
    by (simp add: handleGenerate_try_def setEditUIDisabled_def Let_def)
qed

lemma handleGenerate_resume_edited:
  "editedImageState (handleGenerate_resume out p s) = editedImageState s"
proof (cases "generation_failed out")
  case True
  show ?thesis
    by (simp add: handleGenerate_resume_failed [OF True] setGenerateUIDisabled_def
        handleGenerate_catch_def)
next
  case False
  then obtain r where r: "out = Fulfilled r" by (cases out) simp_all
  with False have ok: "\<not> generation_failed (Fulfilled r)" by simp
  show ?thesis
    unfolding r handleGenerate_resume_ok [OF ok]
    by (simp add: setGenerateUIDisabled_def handleGenerate_try_edited)
qed

lemma handleGenerate_resume_success:
  assumes "bytes \<noteq> []" and "mime \<noteq> []"
    and "firstImage response = Some \<lparr>imageBytes = Some bytes, image_mimeType = Some mime\<rparr>"
  shows "originalImageState (handleGenerate_resume (Fulfilled response) p s) =
           Some \<lparr>data = bytes, mimeType = mime\<rparr> \<and>
         editButton_disabled (handleGenerate_resume (Fulfilled response) p s) = False \<and>
         editPromptInput_disabled (handleGenerate_resume (Fulfilled response) p s) = False"
  using assms by (simp add: generate_defs)

lemma handleGenerate_begin_edited:
  "editedImageState s = None \<Longrightarrow> editedImageState (fst (handleGenerate_begin v r s)) = None"
  by (simp add: generate_defs)

lemma handleEdit_begin_edited:
  "editedImageState s = None \<Longrightarrow> editedImageState (fst (handleEdit_begin v s)) = None"
  by (simp add: handleEdit_begin_def setEditUIDisabled_def Let_def split: option.splits)

lemma handleEdit_begin_issues:
  "editedWrapper_found s \<Longrightarrow> editedSaveContainer_found s \<Longrightarrow> originalImageState s \<noteq> None \<Longrightarrow>
   trim v \<noteq> [] \<Longrightarrow> editedImageState (fst (handleEdit_begin v s)) = None"
  by (auto simp: handleEdit_begin_def setEditUIDisabled_def Let_def)

lemma edited_step:
  assumes "editedImageState (page t) = None" and "no_edit_image e" and "step e t = Some t'"
  shows "editedImageState (page t') = None"
proof (cases e)
  case (ClickGenerate v r)
  then show ?thesis
    using assms page_step(1) [of v r t t'] handleGenerate_begin_edited [of "page t" v r] by simp
next
  case (ClickEdit v)
  then show ?thesis
    using assms page_step(2) [of v t t'] handleEdit_begin_edited [of "page t" v] by simp
next
  case (GenerateSettled k out)
  then show ?thesis
    using assms page_step(3) [of k out t t'] by (simp add: handleGenerate_resume_edited)
next
  case (EditSettled k out)
  then have "imageless out" using assms(2) by simp
  then show ?thesis
    using EditSettled assms page_step(4) [of k out t t'] by (simp add: handleEdit_resume_imageless)
qed

lemma edited_run:
  "editedImageState (page t) = None \<Longrightarrow> \<forall>e\<in>set evs. no_edit_image e \<Longrightarrow> run evs t = Some t' \<Longrightarrow>
   editedImageState (page t') = None"
proof (induction evs arbitrary: t)
  case Nil
  then show ?case by simp
next
  case (Cons e evs)
  then obtain t1 where s: "step e t = Some t1" "run evs t1 = Some t'"
    by (auto split: option.splits)
  have "editedImageState (page t1) = None"
    using edited_step [OF Cons.prems(1) _ s(1)] Cons.prems(2) by simp
  then show ?case using Cons.IH [OF _ _ s(2)] Cons.prems(2) by simp
qed

lemma run_begin_edit:
  assumes "run (ClickEdit v # evs) t = Some t'"
    and "editedWrapper_found (page t)" and "editedSaveContainer_found (page t)"
    and "originalImageState (page t) \<noteq> None" and "trim v \<noteq> []"
  obtains t1 where "run evs t1 = Some t'" and "editedImageState (page t1) = None"
proof -
  from assms(1) obtain t1 where s: "step (ClickEdit v) t = Some t1" "run evs t1 = Some t'"
    by (auto split: option.splits)
  have "page t1 = fst (handleEdit_begin v (page t))"
    using page_step(2) [OF s(1)] by simp
  then have "editedImageState (page t1) = None"
    using handleEdit_begin_issues [OF assms(2-5)] by simp
  with s that show ?thesis by blast
qed

lemma handleEdit_resume_no_image:
  assumes "filter is_image_part (responseParts response) = []"
  shows "editedWrapper (handleEdit_resume (Fulfilled response) p s) =
           [ErrorP ''The model did not return an edited image.''] \<and>
         editedImageState (handleEdit_resume (Fulfilled response) p s) = editedImageState s"
proof -
  have "editedImageState (fst (edit_loop response p s)) = editedImageState s \<and>
        snd (edit_loop response p s) = False"
    using processParts_no_image [OF assms, of p "(s\<lparr>editedWrapper := [P (''Edit: '' @ quoted p)]\<rparr>, False)"]
    by (simp add: edit_loop_def)
  then show ?thesis
    by (simp add: handleEdit_resume_alt setEditUIDisabled_fields handleEdit_catch_fields
        errorMessage_def)
qed

lemma run_from_sys_editing:
  "take 3 es = take 3 overlap \<Longrightarrow> run es sys0 = run (drop 3 es) sys_editing"
proof -
  assume a: "take 3 es = take 3 overlap"
  have "run (take 3 es @ drop 3 es) sys0 = run (drop 3 es) sys_editing"
    unfolding run_append a sys_editing_reached by simp
  then show ?thesis by simp
qed

section \<open>The enablement gate\<close>

text \<open>
  C10. In \<open>setEditUIDisabled(disabled, force)\<close>, disabling always takes effect, whatever
  the force flag and \<open>originalImageState\<close> are. Enabling with \<open>originalImageState\<close> null
  and without force changes nothing at all (button, input and label stay as they are);
  enabling with force takes effect in every state, also when \<open>originalImageState\<close> is
  null.
\<close>

theorem setEditUIDisabled_cases:
  "setEditUIDisabled True force s =
      s\<lparr>editButton_disabled := True, editPromptInput_disabled := True,
        editButton_textContent := ''Editing...''\<rparr> \<and>
   setEditUIDisabled False False (s\<lparr>originalImageState := None\<rparr>) = s\<lparr>originalImageState := None\<rparr> \<and>
   setEditUIDisabled False True s =
      s\<lparr>editButton_disabled := False, editPromptInput_disabled := False,
        editButton_textContent := ''Edit Image''\<rparr>"
  by (simp add: setEditUIDisabled_def)

theorem setEditUIDisabled_cases_witness:
  "setEditUIDisabled True False page0 = page0\<lparr>editButton_textContent := ''Editing...''\<rparr> \<and>
   setEditUIDisabled False False page0 = page0 \<and>
   editButton_disabled (setEditUIDisabled False True page0) = False"
  using setEditUIDisabled_cases [of False page0] setEditUIDisabled_cases [of True page0]
  by (simp add: page0_def)

text \<open>
  C1. A non-forced call that enables the Edit controls changes nothing when
  \<open>originalImageState\<close> is null, and an enabling call takes effect when it is non-null or
  the call is forced. The beginning of a Generation Flow that passes its validation
  leaves the Edit controls disabled, whatever they were before. Every call of
  \<open>setEditUIDisabled\<close> other than a forced enable keeps the gate (the Edit trigger is
  enabled only while \<open>originalImageState\<close> is non-null), and so does every sequence of
  clicks and settlements: if the gate holds in a state of the page, it holds in every
  state reached from it.
\<close>

theorem edit_gate_invariant:
  "(originalImageState s = None \<longrightarrow> setEditUIDisabled False False s = s) \<and>
   (originalImageState s \<noteq> None \<or> force \<longrightarrow>
      \<not> editButton_disabled (setEditUIDisabled False force s)) \<and>
   (all_found s \<and> trim v \<noteq> [] \<longrightarrow>
      editButton_disabled (fst (handleGenerate_begin v r s)) \<and>
      editPromptInput_disabled (fst (handleGenerate_begin v r s))) \<and>
   ((disabled \<or> \<not> force) \<and> gate_ok s \<longrightarrow> gate_ok (setEditUIDisabled disabled force s)) \<and>
   (gate_ok (page t) \<and> run evs t = Some t' \<longrightarrow> gate_ok (page t'))"
proof -
  have a: "originalImageState s = None \<longrightarrow> setEditUIDisabled False False s = s"
    by (simp add: setEditUIDisabled_def)
  have b: "originalImageState s \<noteq> None \<or> force \<longrightarrow>
      \<not> editButton_disabled (setEditUIDisabled False force s)"
    by (auto simp: setEditUIDisabled_def)
  have c: "all_found s \<and> trim v \<noteq> [] \<longrightarrow>
      editButton_disabled (fst (handleGenerate_begin v r s)) \<and>
      editPromptInput_disabled (fst (handleGenerate_begin v r s))"
    by (simp add: handleGenerate_begin_issues)
  have d: "(disabled \<or> \<not> force) \<and> gate_ok s \<longrightarrow> gate_ok (setEditUIDisabled disabled force s)"
    using gate_ok_setEditUIDisabled by blast
  have e: "gate_ok (page t) \<and> run evs t = Some t' \<longrightarrow> gate_ok (page t')"
    using gate_ok_run by blast
  from a b c d e show ?thesis by blast
qed

theorem edit_gate_invariant_witness:
  "setEditUIDisabled False False page0 = page0 \<and>
   editButton_disabled
     (fst (handleGenerate_begin ''a cat'' Ratio_1_1 (page0\<lparr>editButton_disabled := False\<rparr>))) \<and>
   gate_ok (page (the (run [ClickGenerate ''a cat'' Ratio_1_1,
               GenerateSettled 0 (Fulfilled (image_response ''QUJD'' ''image/jpeg'')),
               ClickEdit ''add a hat''] sys0)))"
proof -
  let ?evs = "[ClickGenerate ''a cat'' Ratio_1_1,
               GenerateSettled 0 (Fulfilled (image_response ''QUJD'' ''image/jpeg'')),
               ClickEdit ''add a hat'']"
  have "run ?evs sys0 = Some sys_editing"
    using sys_editing_reached by (simp add: overlap_def)
  then obtain t' where t': "run ?evs sys0 = Some t'"
    by blast
  have w: "trim ''a cat'' \<noteq> []" by (simp add: trim_def isWhiteSpace_def)
  have g: "gate_ok (page sys0)" by (simp add: gate_ok_def page0_def sys0_def)
  have f: "all_found (page0\<lparr>editButton_disabled := False\<rparr>)" by (simp add: all_found_def page0_def)
  have n: "originalImageState page0 = None" by (simp add: page0_def)
  show ?thesis
    using edit_gate_invariant [of page0 False "''a cat''" Ratio_1_1 False sys0 ?evs t']
          edit_gate_invariant
            [of "page0\<lparr>editButton_disabled := False\<rparr>" False "''a cat''" Ratio_1_1 False sys0 ?evs t']
          t' w g f n
    by simp
qed

section \<open>Leaving the loading state\<close>

text \<open>
  C9. Whatever the settlement of its request is (rejection, a response without an image,
  a response with one), the rest of a flow ends by restoring the flow's own controls:
  the Generation Flow enables its trigger, its prompt input and its aspect ratio
  selection and restores the trigger's label, in every state; the Edit Flow enables its
  trigger and its input when \<open>originalImageState\<close> is non-null, and leaves them exactly
  as they are when it is null (the call is not forced).
\<close>

theorem flows_restore_controls:
  "generateButton_disabled (handleGenerate_resume outcome p s) = False \<and>
   generationPromptInput_disabled (handleGenerate_resume outcome p s) = False \<and>
   aspectRatioSelect_disabled (handleGenerate_resume outcome p s) = False \<and>
   generateButton_textContent (handleGenerate_resume outcome p s) = ''Generate Image'' \<and>
   (originalImageState s \<noteq> None \<longrightarrow>
      editButton_disabled (handleEdit_resume outcome' p' s) = False \<and>
      editPromptInput_disabled (handleEdit_resume outcome' p' s) = False \<and>
      editButton_textContent (handleEdit_resume outcome' p' s) = ''Edit Image'') \<and>
   (originalImageState s = None \<longrightarrow>
      editButton_disabled (handleEdit_resume outcome' p' s) = editButton_disabled s \<and>
      editPromptInput_disabled (handleEdit_resume outcome' p' s) = editPromptInput_disabled s \<and>
      editButton_textContent (handleEdit_resume outcome' p' s) = editButton_textContent s)"
proof -
  have gen: "generateButton_disabled (handleGenerate_resume outcome p s) = False \<and>
   generationPromptInput_disabled (handleGenerate_resume outcome p s) = False \<and>
   aspectRatioSelect_disabled (handleGenerate_resume outcome p s) = False \<and>
   generateButton_textContent (handleGenerate_resume outcome p s) = ''Generate Image''"
    by (simp add: handleGenerate_resume_def setGenerateUIDisabled_def Let_def)
  have ed: "(originalImageState s \<noteq> None \<longrightarrow>
      editButton_disabled (handleEdit_resume outcome' p' s) = False \<and>
      editPromptInput_disabled (handleEdit_resume outcome' p' s) = False \<and>
      editButton_textContent (handleEdit_resume outcome' p' s) = ''Edit Image'') \<and>
   (originalImageState s = None \<longrightarrow>
      editButton_disabled (handleEdit_resume outcome' p' s) = editButton_disabled s \<and>
      editPromptInput_disabled (handleEdit_resume outcome' p' s) = editPromptInput_disabled s \<and>
      editButton_textContent (handleEdit_resume outcome' p' s) = editButton_textContent s)"
    by (simp add: handleEdit_resume_gate del: not_None_eq)
  from gen ed show ?thesis by blast
qed

theorem flows_restore_controls_witness:
  "generateButton_disabled
     (handleGenerate_resume (Rejected NonError) ''a dog'' (page sys_editing)) = False \<and>
   editButton_disabled
     (handleEdit_resume (Rejected (Error ''timeout'')) ''add a hat'' (page sys_editing)) = False \<and>
   editButton_disabled (handleEdit_resume (Rejected (Error ''timeout'')) ''add a hat'' page0) = True"
  using flows_restore_controls
          [of "Rejected NonError" "''a dog''" "page sys_editing" "Rejected (Error ''timeout'')" "''add a hat''"]
        flows_restore_controls
          [of "Rejected NonError" "''a dog''" page0 "Rejected (Error ''timeout'')" "''add a hat''"]
  by (simp add: sys_editing_def page0_def)

section \<open>Validation\<close>

text \<open>
  C7. With the regions of the page in place, a Generation Flow invoked with an empty or
  whitespace-only prompt, an Edit Flow invoked while \<open>originalImageState\<close> is null, and an
  Edit Flow invoked with an empty or whitespace-only instruction each issue no request
  and return the state they were given with one warning appended to the alerts and
  nothing else changed: no slot is written and no control changes. More generally, every
  exit of the beginning of a flow that issues no request leaves everything but the two
  logs as it was.
\<close>

theorem validation_failure_only_warns:
  "(all_found s \<and> (\<forall>c\<in>set v. isWhiteSpace c) \<longrightarrow>
      handleGenerate_begin v r s =
        (s\<lparr>alerts := alerts s @ [''Please provide a description for the image you want to create.'']\<rparr>,
         None)) \<and>
   (editedWrapper_found s \<and> editedSaveContainer_found s \<and> originalImageState s = None \<longrightarrow>
      handleEdit_begin v s =
        (s\<lparr>alerts := alerts s @ [''Please generate an image first before editing.'']\<rparr>, None)) \<and>
   (editedWrapper_found s \<and> editedSaveContainer_found s \<and> originalImageState s \<noteq> None \<and>
    (\<forall>c\<in>set v. isWhiteSpace c) \<longrightarrow>
      handleEdit_begin v s =
        (s\<lparr>alerts := alerts s @
            [''Please provide a description of how you want to edit the image.'']\<rparr>, None)) \<and>
   (snd (handleGenerate_begin v r s) = None \<longrightarrow>
      (fst (handleGenerate_begin v r s))\<lparr>alerts := alerts s, console_errors := console_errors s\<rparr> = s) \<and>
   (snd (handleEdit_begin v s) = None \<longrightarrow>
      (fst (handleEdit_begin v s))\<lparr>alerts := alerts s, console_errors := console_errors s\<rparr> = s)"
proof -
  have t: "(\<forall>c\<in>set v. isWhiteSpace c) \<Longrightarrow> trim v = []"
    by (rule trim_whitespace_only)
  have warn: "(all_found s \<and> (\<forall>c\<in>set v. isWhiteSpace c) \<longrightarrow>
      handleGenerate_begin v r s =
        (s\<lparr>alerts := alerts s @ [''Please provide a description for the image you want to create.'']\<rparr>,
         None)) \<and>
   (editedWrapper_found s \<and> editedSaveContainer_found s \<and> originalImageState s = None \<longrightarrow>
      handleEdit_begin v s =
        (s\<lparr>alerts := alerts s @ [''Please generate an image first before editing.'']\<rparr>, None)) \<and>
   (editedWrapper_found s \<and> editedSaveContainer_found s \<and> originalImageState s \<noteq> None \<and>
    (\<forall>c\<in>set v. isWhiteSpace c) \<longrightarrow>
      handleEdit_begin v s =
        (s\<lparr>alerts := alerts s @
            [''Please provide a description of how you want to edit the image.'']\<rparr>, None))"
    using t by (auto simp: handleGenerate_begin_def handleEdit_begin_def all_found_def Let_def)
  have frame_generate: "snd (handleGenerate_begin v r s) = None \<longrightarrow>
      (fst (handleGenerate_begin v r s))\<lparr>alerts := alerts s, console_errors := console_errors s\<rparr> = s"
    by (simp add: handleGenerate_begin_def Let_def)
  have frame_edit: "snd (handleEdit_begin v s) = None \<longrightarrow>
      (fst (handleEdit_begin v s))\<lparr>alerts := alerts s, console_errors := console_errors s\<rparr> = s"
    by (simp add: handleEdit_begin_def Let_def split: option.splits)
  from warn frame_generate frame_edit show ?thesis by blast
qed

theorem validation_failure_only_warns_witness:
  "handleGenerate_begin ''   '' Ratio_16_9 page0 =
     (page0\<lparr>alerts := [''Please provide a description for the image you want to create.'']\<rparr>, None) \<and>
   handleEdit_begin ''add a hat'' page0 =
     (page0\<lparr>alerts := [''Please generate an image first before editing.'']\<rparr>, None) \<and>
   handleEdit_begin [] (page0\<lparr>originalImageState := Some \<lparr>data = ''QUJD'', mimeType = ''image/jpeg''\<rparr>\<rparr>) =
     (page0\<lparr>originalImageState := Some \<lparr>data = ''QUJD'', mimeType = ''image/jpeg''\<rparr>,
            alerts := [''Please provide a description of how you want to edit the image.'']\<rparr>, None)"
  using validation_failure_only_warns [of page0 "''   ''" Ratio_16_9]
        validation_failure_only_warns [of page0 "''add a hat''"]
        validation_failure_only_warns
          [of "page0\<lparr>originalImageState := Some \<lparr>data = ''QUJD'', mimeType = ''image/jpeg''\<rparr>\<rparr>" "[]"]
  by (simp add: page0_def all_found_def isWhiteSpace_def)

section \<open>The Generation Flow\<close>

text \<open>
  C3, as amended. A Generation Flow begins, with the regions of the page in place and a
  prompt that is non-empty after trimming, whatever the aspect ratio. Whatever clicks
  and settlements are handled while it waits, when a generation request fulfils with a
  response whose first image has non-empty bytes and a non-empty mime type,
  \<open>originalImageState\<close> holds exactly these bytes and this mime type and the Edit
  controls are enabled. \<open>editedImageState\<close>, which the beginning has set to null, is
  null then, provided that no edit request has fulfilled with an image part in between.
\<close>

theorem generate_success:
  assumes "run (ClickGenerate v r # evs @ [GenerateSettled k (Fulfilled response)]) t = Some t'"
    and "all_found (page t)" and "trim v \<noteq> []" and "bytes \<noteq> []" and "mime \<noteq> []"
    and "firstImage response = Some \<lparr>imageBytes = Some bytes, image_mimeType = Some mime\<rparr>"
  shows "originalImageState (page t') = Some \<lparr>data = bytes, mimeType = mime\<rparr> \<and>
         editButton_disabled (page t') = False \<and> editPromptInput_disabled (page t') = False \<and>
         ((\<forall>e\<in>set evs. no_edit_image e) \<longrightarrow> editedImageState (page t') = None)"
proof -
  from assms(1) have "run (ClickGenerate v r # (evs @ [GenerateSettled k (Fulfilled response)])) t = Some t'"
    by simp
  from run_begin_generate [OF this assms(2,3)] obtain t1 where
    t1: "run (evs @ [GenerateSettled k (Fulfilled response)]) t1 = Some t'"
        "editedImageState (page t1) = None"
    by blast
  then obtain t2 where t2: "run evs t1 = Some t2"
      "step (GenerateSettled k (Fulfilled response)) t2 = Some t'"
    by (auto simp: run_append split: option.splits)
  have p: "page t' = handleGenerate_resume (Fulfilled response) (generate_pending t2 ! k) (page t2)"
    using page_step(3) [OF t2(2)] .
  have stored: "originalImageState (page t') = Some \<lparr>data = bytes, mimeType = mime\<rparr> \<and>
         editButton_disabled (page t') = False \<and> editPromptInput_disabled (page t') = False"
    unfolding p by (rule handleGenerate_resume_success [OF assms(4-6)])
  have "editedImageState (page t') = None" if q: "\<forall>e\<in>set evs. no_edit_image e"
  proof -
    have "editedImageState (page t2) = None" using edited_run [OF t1(2) q t2(1)] .
    then show ?thesis unfolding p by (simp add: handleGenerate_resume_edited)
  qed
  with stored show ?thesis by blast
qed

theorem generate_success_witness:
  "originalImageState (page (the (run [ClickGenerate '' a dog '' Ratio_4_3,
       EditSettled 0 (Rejected (Error ''timeout'')),
       GenerateSettled 0 (Fulfilled (image_response ''RE9H'' ''image/png''))] sys_editing))) =
     Some \<lparr>data = ''RE9H'', mimeType = ''image/png''\<rparr> \<and>
   editButton_disabled (page (the (run [ClickGenerate '' a dog '' Ratio_4_3,
       EditSettled 0 (Rejected (Error ''timeout'')),
       GenerateSettled 0 (Fulfilled (image_response ''RE9H'' ''image/png''))] sys_editing))) = False \<and>
   editedImageState (page (the (run [ClickGenerate '' a dog '' Ratio_4_3,
       EditSettled 0 (Rejected (Error ''timeout'')),
       GenerateSettled 0 (Fulfilled (image_response ''RE9H'' ''image/png''))] sys_editing))) = None"
proof -
  let ?evs = "[ClickGenerate '' a dog '' Ratio_4_3,
       EditSettled 0 (Rejected (Error ''timeout'')),
       GenerateSettled 0 (Fulfilled (image_response ''RE9H'' ''image/png''))]"
  have "run ?evs sys_editing \<noteq> None"
    by (simp add: step.simps sys_editing_def page0_def generate_defs trim_def isWhiteSpace_def)
  then obtain t' where t': "run ?evs sys_editing = Some t'"
    by blast
  have w: "trim '' a dog '' \<noteq> []" by (simp add: trim_def isWhiteSpace_def)
  have f: "all_found (page sys_editing)" by (simp add: sys_editing_def page0_def all_found_def)
  have i: "firstImage (image_response ''RE9H'' ''image/png'') =
             Some \<lparr>imageBytes = Some ''RE9H'', image_mimeType = Some ''image/png''\<rparr>"
    by (simp add: firstImage_def image_response_def)
  show ?thesis
    using generate_success [of "'' a dog ''" Ratio_4_3 "[EditSettled 0 (Rejected (Error ''timeout''))]" 0
                "image_response ''RE9H'' ''image/png''" sys_editing t' "''RE9H''" "''image/png''"]
          t' w f i
    by simp
qed

text \<open>
  The claim C3 as it stands fails: in the session where Generate is clicked while an edit
  request waits and the edit request fulfils with an image before the generation does,
  the generation ends with its image stored and the Edit controls enabled, and
  \<open>editedImageState\<close> holds the image of the edit.
\<close>

theorem stale_edit_survives_generation:
  "run (overlap @ [GenerateSettled 0 (Fulfilled (image_response ''RE9H'' ''image/jpeg''))]) sys0 \<noteq> None \<and>
   originalImageState (page (the (run (overlap @
       [GenerateSettled 0 (Fulfilled (image_response ''RE9H'' ''image/jpeg''))]) sys0))) =
     Some \<lparr>data = ''RE9H'', mimeType = ''image/jpeg''\<rparr> \<and>
   editButton_disabled (page (the (run (overlap @
       [GenerateSettled 0 (Fulfilled (image_response ''RE9H'' ''image/jpeg''))]) sys0))) = False \<and>
   generate_pending (the (run (overlap @
       [GenerateSettled 0 (Fulfilled (image_response ''RE9H'' ''image/jpeg''))]) sys0)) = [] \<and>
   editedImageState (page (the (run (overlap @
       [GenerateSettled 0 (Fulfilled (image_response ''RE9H'' ''image/jpeg''))]) sys0))) =
     Some \<lparr>data = ''WA=='', mimeType = ''image/png''\<rparr>"
proof -
  have "take 3 (overlap @ [GenerateSettled 0 (Fulfilled (image_response ''RE9H'' ''image/jpeg''))]) =
        take 3 overlap"
    by (simp add: overlap_def)
  from run_from_sys_editing [OF this] show ?thesis
    by (simp add: overlap_def step.simps sys_editing_def page0_def generate_defs handleEdit_resume_alt
      edit_loop_def responseParts_def response_with_def processPart_def image_part_def
      firstImage_def image_response_def trim_def isWhiteSpace_def remove_nth_def)
qed

text \<open>
  C5. A Generation Flow begins, with the regions of the page in place and a prompt that
  is non-empty after trimming. Whatever clicks and settlements of edit requests are
  handled while it waits, when its request rejects or fulfils with a response without
  image bytes, the original region holds the error paragraph with the message of the
  failure and nothing else, \<open>originalImageState\<close> is null and the Edit controls are
  disabled.
\<close>

theorem generate_failure_leaves_nothing:
  assumes "run (ClickGenerate v r # evs @ [GenerateSettled k outcome]) t = Some t'"
    and "all_found (page t)" and "trim v \<noteq> []"
    and "\<forall>e\<in>set evs. \<not> is_GenerateSettled e"
    and "generation_failed outcome"
  shows "originalWrapper (page t') = [ErrorP (failure_message outcome)] \<and>
         originalImageState (page t') = None \<and>
         editButton_disabled (page t') \<and> editPromptInput_disabled (page t')"
proof -
  from assms(1) have "run (ClickGenerate v r # (evs @ [GenerateSettled k outcome])) t = Some t'"
    by simp
  from run_begin_generate [OF this assms(2,3)] obtain t1 where
    t1: "run (evs @ [GenerateSettled k outcome]) t1 = Some t'" "locked (page t1)"
    by blast
  then obtain t2 where t2: "run evs t1 = Some t2" "step (GenerateSettled k outcome) t2 = Some t'"
    by (auto simp: run_append split: option.splits)
  have l: "locked (page t2)" using locked_run [OF t1(2) assms(4) t2(1)] .
  have "page t' = handleGenerate_resume outcome (generate_pending t2 ! k) (page t2)"
    using page_step(3) [OF t2(2)] .
  then have p: "page t' = setGenerateUIDisabled False (handleGenerate_catch (thrown_of outcome) (page t2))"
    by (simp add: handleGenerate_resume_failed [OF assms(5)])
  have m: "errorMessage (thrown_of outcome) = failure_message outcome"
    by (cases outcome) (simp_all add: errorMessage_def)
  show ?thesis
    using l unfolding p
    by (simp add: setGenerateUIDisabled_def handleGenerate_catch_def locked_def m)
qed

theorem generate_failure_leaves_nothing_witness:
  "originalWrapper (page (the (run [ClickGenerate ''a dog'' Ratio_1_1,
       EditSettled 0 (Fulfilled (response_with [text_part ''Done.''])),
       GenerateSettled 0 (Fulfilled \<lparr>generatedImages = Some []\<rparr>)] sys_editing))) =
     [ErrorP ''Failed to generate the initial image.''] \<and>
   originalImageState (page (the (run [ClickGenerate ''a dog'' Ratio_1_1,
       EditSettled 0 (Fulfilled (response_with [text_part ''Done.''])),
       GenerateSettled 0 (Fulfilled \<lparr>generatedImages = Some []\<rparr>)] sys_editing))) = None \<and>
   editButton_disabled (page (the (run [ClickGenerate ''a dog'' Ratio_1_1,
       EditSettled 0 (Fulfilled (response_with [text_part ''Done.''])),
       GenerateSettled 0 (Fulfilled \<lparr>generatedImages = Some []\<rparr>)] sys_editing)))"
proof -
  let ?evs = "[ClickGenerate ''a dog'' Ratio_1_1,
       EditSettled 0 (Fulfilled (response_with [text_part ''Done.''])),
       GenerateSettled 0 (Fulfilled \<lparr>generatedImages = Some []\<rparr>)]"
  have "run ?evs sys_editing \<noteq> None"
    by (simp add: step.simps sys_editing_def page0_def generate_defs trim_def isWhiteSpace_def)
  then obtain t' where t': "run ?evs sys_editing = Some t'"
    by blast
  have w: "trim ''a dog'' \<noteq> []" by (simp add: trim_def isWhiteSpace_def)
  have f: "all_found (page sys_editing)" by (simp add: sys_editing_def page0_def all_found_def)
  have g: "generation_failed (Fulfilled \<lparr>generatedImages = Some []\<rparr>)"
    by (simp add: firstImage_def)
  show ?thesis
    using generate_failure_leaves_nothing
            [of "''a dog''" Ratio_1_1 "[EditSettled 0 (Fulfilled (response_with [text_part ''Done.'']))]"
                0 "Fulfilled \<lparr>generatedImages = Some []\<rparr>" sys_editing t'] t' w f g
    by simp
qed

text \<open>
  C4, as amended. The beginning of a Generation Flow that passes its validation sets both
  slots to null, leaves the original region holding the loading paragraph and nothing
  else, empties the edited region and both save-control regions, disables the Edit
  controls whatever they were, and issues one request. From then on, as long as neither
  the request of the generation settles nor an edit request that was waiting settles
  with an image part, \<open>editedImageState\<close> stays null (and \<open>originalImageState\<close> stays null
  and the Edit controls stay disabled).
\<close>

theorem generate_begin_resets:
  assumes "all_found (page t)" and "trim v \<noteq> []"
  shows "handleGenerate_begin v r (page t) =
     ((page t)\<lparr>generateButton_disabled := True, generationPromptInput_disabled := True,
        aspectRatioSelect_disabled := True, generateButton_textContent := ''Generating...'',
        originalImageState := None, editedImageState := None,
        originalWrapper := [LoadingP ''Generating original image...''],
        editedWrapper := [], originalSaveContainer := [], editedSaveContainer := [],
        editButton_disabled := True, editPromptInput_disabled := True,
        editButton_textContent := ''Editing...''\<rparr>,
      Some (GenerateImages imageGenerationModel (trim v) 1 ''image/jpeg'' r)) \<and>
    (run (ClickGenerate v r # evs) t = Some t' \<and> (\<forall>e\<in>set evs. quiet e) \<longrightarrow>
       editedImageState (page t') = None \<and> originalImageState (page t') = None \<and>
       editButton_disabled (page t') \<and> editPromptInput_disabled (page t'))"
proof -
  have "editedImageState (page t') = None \<and> originalImageState (page t') = None \<and>
       editButton_disabled (page t') \<and> editPromptInput_disabled (page t')"
    if r: "run (ClickGenerate v r # evs) t = Some t'" and q: "\<forall>e\<in>set evs. quiet e"
  proof -
    from run_begin_generate [OF r assms] obtain t1 where
      t1: "run evs t1 = Some t'" "locked (page t1)" "editedImageState (page t1) = None"
      by blast
    from quiet_run [OF t1(2,3) q t1(1)] show ?thesis by (simp add: locked_def)
  qed
  with handleGenerate_begin_issues [OF assms, of r] show ?thesis by blast
qed

theorem generate_begin_resets_witness:
  "editedImageState (fst (handleGenerate_begin ''a dog'' Ratio_1_1 (page sys_editing))) = None \<and>
   snd (handleGenerate_begin ''a dog'' Ratio_1_1 (page sys_editing)) =
     Some (GenerateImages imageGenerationModel ''a dog'' 1 ''image/jpeg'' Ratio_1_1) \<and>
   editedImageState (page (the (run [ClickGenerate ''a dog'' Ratio_1_1,
       EditSettled 0 (Rejected (Error ''timeout''))] sys_editing))) = None"
proof -
  let ?evs = "[EditSettled 0 (Rejected (Error ''timeout''))]"
  have "run (ClickGenerate ''a dog'' Ratio_1_1 # ?evs) sys_editing \<noteq> None"
    by (simp add: step.simps sys_editing_def page0_def generate_defs trim_def isWhiteSpace_def)
  then obtain t' where t': "run (ClickGenerate ''a dog'' Ratio_1_1 # ?evs) sys_editing = Some t'"
    by blast
  have w: "trim ''a dog'' = ''a dog''" by (simp add: trim_def isWhiteSpace_def)
  have f: "all_found (page sys_editing)" by (simp add: sys_editing_def page0_def all_found_def)
  show ?thesis
    using generate_begin_resets [of sys_editing "''a dog''" Ratio_1_1 ?evs t'] t' w f
    by simp
qed

text \<open>
  The claim C4 as it stands fails: a user generates an image, asks for an edit, and
  clicks Generate again while the edit request waits (the Edit Flow never disables the
  Generate trigger). When the edit request then fulfils with an image, the generation
  still waits for its request and \<open>editedImageState\<close> holds that image.
\<close>

theorem edited_set_while_generating:
  "run overlap sys0 \<noteq> None \<and>
   generate_pending (the (run overlap sys0)) = [''a dog''] \<and>
   editedImageState (page (the (run overlap sys0))) = Some \<lparr>data = ''WA=='', mimeType = ''image/png''\<rparr>"
proof -
  have "overlap = take 3 overlap @ drop 3 overlap" by simp
  then have "run overlap sys0 = run (drop 3 overlap) sys_editing"
    using run_append [of "take 3 overlap" "drop 3 overlap" sys0] sys_editing_reached by simp
  then show ?thesis
    by (simp add: overlap_def step.simps sys_editing_def page0_def generate_defs handleEdit_resume_alt
      edit_loop_def responseParts_def response_with_def processPart_def image_part_def
      trim_def isWhiteSpace_def remove_nth_def)
qed

section \<open>The Edit Flow\<close>

text \<open>
  C2. When the edit request fulfils with the parts text A, image X, text B, image Y in
  this order, the rest of the flow leaves \<open>editedImageState\<close> equal to Y, and the edited
  region holds, from the top: image Y, image X, the paragraph of the instruction, then
  the texts A and B (each one rendered unless it is the empty string). So image Y is
  above every text. Each image part is inserted at the top of the region as it stood
  when the part was processed.
\<close>

theorem edit_last_image_wins:
  assumes "responseParts response = [text_part a, image_part x, text_part b, image_part y]"
  shows "editedImageState (handleEdit_resume (Fulfilled response) p s) = Some y \<and>
         editedWrapper (handleEdit_resume (Fulfilled response) p s) =
           [Img (dataUrl (mimeType y) (data y)) p, Img (dataUrl (mimeType x) (data x)) p,
            P (''Edit: '' @ quoted p)] @
           (if a = [] then [] else [P a]) @ (if b = [] then [] else [P b]) \<and>
         editedWrapper (fst (processPart p (image_part z) (s', found))) =
           Img (dataUrl (mimeType z) (data z)) p # editedWrapper s'"
proof -
  have loop: "edit_loop response p s =
     (s\<lparr>editedImageState := Some y,
        editedWrapper := [Img (dataUrl (mimeType y) (data y)) p, Img (dataUrl (mimeType x) (data x)) p,
            P (''Edit: '' @ quoted p)] @
           (if a = [] then [] else [P a]) @ (if b = [] then [] else [P b]),
        editedSaveContainer := [SaveButton y ''edited-image'']\<rparr>, True)"
    by (simp add: edit_loop_def assms processPart_image processPart_text)
  show ?thesis
    by (simp add: handleEdit_resume_alt loop setEditUIDisabled_fields processPart_image)
qed

theorem edit_last_image_wins_witness:
  "editedImageState (handleEdit_resume
      (Fulfilled (response_with
         [text_part ''A'', image_part \<lparr>data = ''WA=='', mimeType = ''image/png''\<rparr>,
          text_part ''B'', image_part \<lparr>data = ''WQ=='', mimeType = ''image/webp''\<rparr>]))
      ''add a hat'' page0) = Some \<lparr>data = ''WQ=='', mimeType = ''image/webp''\<rparr> \<and>
   editedWrapper (handleEdit_resume
      (Fulfilled (response_with
         [text_part ''A'', image_part \<lparr>data = ''WA=='', mimeType = ''image/png''\<rparr>,
          text_part ''B'', image_part \<lparr>data = ''WQ=='', mimeType = ''image/webp''\<rparr>]))
      ''add a hat'' page0) =
     [Img ''data:image/webp;base64,WQ=='' ''add a hat'',
      Img ''data:image/png;base64,WA=='' ''add a hat'',
      P (''Edit: '' @ quoted ''add a hat''), P ''A'', P ''B'']"
  using edit_last_image_wins [of "response_with
         [text_part ''A'', image_part \<lparr>data = ''WA=='', mimeType = ''image/png''\<rparr>,
          text_part ''B'', image_part \<lparr>data = ''WQ=='', mimeType = ''image/webp''\<rparr>]"
       "''A''" "\<lparr>data = ''WA=='', mimeType = ''image/png''\<rparr>" "''B''"
       "\<lparr>data = ''WQ=='', mimeType = ''image/webp''\<rparr>" "''add a hat''" page0]
  by (simp add: responseParts_response_with dataUrl_def)

text \<open>
  C6, as amended. An Edit Flow begins, with its regions in place, an original image and
  an instruction that is non-empty after trimming. Whatever clicks and settlements are
  handled while it waits, when an edit request fulfils with a response that has no image
  part (its parts may be missing or empty), the edited region holds the error paragraph
  "The model did not return an edited image." and nothing else. \<open>editedImageState\<close>,
  which the beginning has set to null, is null then, provided that no edit request has
  fulfilled with an image part in between. From every state, the rest of the flow after
  such a settlement writes the error paragraph and does not write \<open>editedImageState\<close>.
\<close>

theorem edit_without_image_fails:
  assumes "run (ClickEdit v # evs @ [EditSettled k (Fulfilled response)]) t = Some t'"
    and "editedWrapper_found (page t)" and "editedSaveContainer_found (page t)"
    and "originalImageState (page t) \<noteq> None" and "trim v \<noteq> []"
    and "filter is_image_part (responseParts response) = []"
  shows "editedWrapper (page t') = [ErrorP ''The model did not return an edited image.''] \<and>
         ((\<forall>e\<in>set evs. no_edit_image e) \<longrightarrow> editedImageState (page t') = None) \<and>
         editedWrapper (handleEdit_resume (Fulfilled response) p s) =
           [ErrorP ''The model did not return an edited image.''] \<and>
         editedImageState (handleEdit_resume (Fulfilled response) p s) = editedImageState s"
proof -
  from assms(1) have "run (ClickEdit v # (evs @ [EditSettled k (Fulfilled response)])) t = Some t'"
    by simp
  from run_begin_edit [OF this assms(2-5)] obtain t1 where
    t1: "run (evs @ [EditSettled k (Fulfilled response)]) t1 = Some t'"
        "editedImageState (page t1) = None"
    by blast
  then obtain t2 where t2: "run evs t1 = Some t2"
      "step (EditSettled k (Fulfilled response)) t2 = Some t'"
    by (auto simp: run_append split: option.splits)
  have p: "page t' = handleEdit_resume (Fulfilled response) (edit_pending t2 ! k) (page t2)"
    using page_step(4) [OF t2(2)] .
  have region: "editedWrapper (page t') = [ErrorP ''The model did not return an edited image.'']"
    unfolding p using handleEdit_resume_no_image [OF assms(6)] by simp
  have "editedImageState (page t') = None" if q: "\<forall>e\<in>set evs. no_edit_image e"
  proof -
    have "editedImageState (page t2) = None" using edited_run [OF t1(2) q t2(1)] .
    then show ?thesis unfolding p using handleEdit_resume_no_image [OF assms(6)] by simp
  qed
  with region handleEdit_resume_no_image [OF assms(6), of p s] show ?thesis by blast
qed

theorem edit_without_image_fails_witness:
  "editedWrapper (page (the (run [ClickEdit ''add a scarf'',
       EditSettled 0 (Rejected (Error ''timeout'')),
       EditSettled 0 (Fulfilled (response_with [text_part ''Sorry, no.'']))]
     (sys_editing\<lparr>page := (page sys_editing)\<lparr>editButton_disabled := False\<rparr>\<rparr>)))) =
     [ErrorP ''The model did not return an edited image.''] \<and>
   editedImageState (page (the (run [ClickEdit ''add a scarf'',
       EditSettled 0 (Rejected (Error ''timeout'')),
       EditSettled 0 (Fulfilled (response_with [text_part ''Sorry, no.'']))]
     (sys_editing\<lparr>page := (page sys_editing)\<lparr>editButton_disabled := False\<rparr>\<rparr>)))) = None \<and>
   editedWrapper (handleEdit_resume (Fulfilled \<lparr>candidates = None\<rparr>) ''add a hat'' page0) =
     [ErrorP ''The model did not return an edited image.'']"
proof -
  let ?t = "sys_editing\<lparr>page := (page sys_editing)\<lparr>editButton_disabled := False\<rparr>\<rparr>"
  let ?evs = "[ClickEdit ''add a scarf'',
       EditSettled 0 (Rejected (Error ''timeout'')),
       EditSettled 0 (Fulfilled (response_with [text_part ''Sorry, no.'']))]"
  have "run ?evs ?t \<noteq> None"
    by (simp add: step.simps sys_editing_def page0_def handleEdit_begin_def setEditUIDisabled_def
        Let_def trim_def isWhiteSpace_def remove_nth_def)
  then obtain t' where t': "run ?evs ?t = Some t'"
    by blast
  have w: "trim ''add a scarf'' \<noteq> []" by (simp add: trim_def isWhiteSpace_def)
  have f: "editedWrapper_found (page ?t)" "editedSaveContainer_found (page ?t)"
          "originalImageState (page ?t) \<noteq> None"
    by (simp_all add: sys_editing_def page0_def)
  have n: "filter is_image_part (responseParts (response_with [text_part ''Sorry, no.''])) = []"
    by (simp add: responseParts_response_with is_image_part_def text_part_def)
  have m: "filter is_image_part (responseParts \<lparr>candidates = None\<rparr>) = []"
    by (simp add: responseParts_def)
  show ?thesis
    using edit_without_image_fails [of "''add a scarf''" "[EditSettled 0 (Rejected (Error ''timeout''))]" 0
                "response_with [text_part ''Sorry, no.'']" ?t t' "''add a hat''" page0]
          t' w f n handleEdit_resume_no_image [OF m, of "''add a hat''" page0]
    by simp
qed

text \<open>
  The claim C6 as it stands fails: a generation that succeeds while an edit request
  waits enables the Edit trigger again, so a second edit can be requested. When the
  first request then fulfils with an image and the second one with a text only, the
  second flow ends with the error paragraph in the edited region and
  \<open>editedImageState\<close> holding the image of the first.
\<close>

theorem imageless_edit_ends_with_image:
  "run two_edits sys0 \<noteq> None \<and>
   editedWrapper (page (the (run two_edits sys0))) =
     [ErrorP ''The model did not return an edited image.''] \<and>
   edit_pending (the (run two_edits sys0)) = [] \<and>
   editedImageState (page (the (run two_edits sys0))) = Some \<lparr>data = ''WA=='', mimeType = ''image/png''\<rparr>"
proof -
  have "take 3 two_edits = take 3 overlap"
    by (simp add: overlap_def two_edits_def)
  from run_from_sys_editing [OF this] show ?thesis
    by (simp add: two_edits_def step.simps sys_editing_def page0_def generate_defs
      handleEdit_begin_def handleEdit_resume_alt handleEdit_catch_def errorMessage_def
      edit_loop_def responseParts_def response_with_def processPart_def image_part_def text_part_def
      firstImage_def image_response_def trim_def isWhiteSpace_def remove_nth_def)
qed

section \<open>Save and download\<close>

text \<open>
  C8, as amended. \<open>downloadImage\<close> does nothing for a null artifact. For an artifact and a
  prefix it triggers the download of the artifact's data URL under the name
  prefix, "-", the decimal numeral of the current time in milliseconds, ".", extension,
  where the extension is the piece of the mime type between its first slash and the next
  slash (or the end), and \<open>jpeg\<close> when there is no slash or this piece is empty. Prefix
  and extension do not depend on the time, so two calls for the same artifact and prefix
  give names that differ in the time only. When the mime type has at most one slash,
  the extension is the substring after the slash, as the specification words it.
\<close>

theorem download_filename:
  "downloadImage None filenamePrefix now = None \<and>
   downloadImage (Some im) filenamePrefix now =
     Some \<lparr>href = dataUrl (mimeType im) (data im),
           download = filenamePrefix @ ''-'' @ string_of_int now @ ''.'' @
             (if segment (mimeType im) = [] then ''jpeg'' else segment (mimeType im))\<rparr> \<and>
   (CHR ''/'' \<notin> set (drop 1 (dropWhile (\<lambda>c. c \<noteq> CHR ''/'') (mimeType im))) \<longrightarrow>
      extension (mimeType im) = spec_extension (mimeType im))"
proof -
  have tw: "CHR ''/'' \<notin> set xs \<Longrightarrow> takeWhile (\<lambda>c. c \<noteq> CHR ''/'') xs = xs" for xs
    by (induction xs) auto
  have agree: "extension (mimeType im) = spec_extension (mimeType im)"
    if "CHR ''/'' \<notin> set (drop 1 (dropWhile (\<lambda>c. c \<noteq> CHR ''/'') (mimeType im)))"
  proof -
    have "segment (mimeType im) = drop 1 (dropWhile (\<lambda>c. c \<noteq> CHR ''/'') (mimeType im))"
      unfolding segment_def by (rule tw [OF that])
    then show ?thesis
      by (simp only: extension_segment spec_extension_def Let_def)
  qed
  have none: "downloadImage None filenamePrefix now = None"
    by (simp add: downloadImage_def)
  have some: "downloadImage (Some im) filenamePrefix now =
     Some \<lparr>href = dataUrl (mimeType im) (data im),
           download = filenamePrefix @ ''-'' @ string_of_int now @ ''.'' @
             (if segment (mimeType im) = [] then ''jpeg'' else segment (mimeType im))\<rparr>"
    by (simp add: downloadImage_def extension_segment)
  from none some agree show ?thesis by blast
qed

theorem download_filename_witness:
  "downloadImage (Some \<lparr>data = ''QUJD'', mimeType = ''image/png''\<rparr>) ''original-image'' 1700000000000 =
     Some \<lparr>href = ''data:image/png;base64,QUJD'', download = ''original-image-1700000000000.png''\<rparr> \<and>
   downloadImage (Some \<lparr>data = ''QUJD'', mimeType = ''image/png''\<rparr>) ''original-image'' 1700000000001 =
     Some \<lparr>href = ''data:image/png;base64,QUJD'', download = ''original-image-1700000000001.png''\<rparr> \<and>
   downloadImage (Some \<lparr>data = ''QUJD'', mimeType = ''image''\<rparr>) ''edited-image'' 5 =
     Some \<lparr>href = ''data:image;base64,QUJD'', download = ''edited-image-5.jpeg''\<rparr> \<and>
   extension ''image/png'' = spec_extension ''image/png''"
  using download_filename [of "''original-image''" 1700000000000 "\<lparr>data = ''QUJD'', mimeType = ''image/png''\<rparr>"]
        download_filename [of "''original-image''" 1700000000001 "\<lparr>data = ''QUJD'', mimeType = ''image/png''\<rparr>"]
        download_filename [of "''edited-image''" 5 "\<lparr>data = ''QUJD'', mimeType = ''image''\<rparr>"]
  by (simp add: segment_def dataUrl_def numeral_defs)

text \<open>
  The claim C8 as it stands fails for a mime type with a second slash: the substring
  after the slash of \<open>a/b/c\<close> is \<open>b/c\<close>, and the name ends in \<open>.b\<close>.
\<close>

theorem download_extension_second_slash:
  "download (the (downloadImage (Some \<lparr>data = ''QUJD'', mimeType = ''a/b/c''\<rparr>) ''edited-image''
       1700000000000)) = ''edited-image-1700000000000.b'' \<and>
   spec_extension ''a/b/c'' = ''b/c''"
  by (simp add: downloadImage_def extension_def spec_extension_def numeral_defs)

end
